theory Spec2Isabelle
  imports Complex_Main "HOL-Library.Log_Nat"
begin

section \<open>Conventions\<close>

text \<open>
  The backend is JavaScript on Mongoose. Identifiers of stored records (ObjectId) and of
  users are natural numbers, dates are integers (milliseconds since the epoch, what
  \<^verbatim>\<open>Date.prototype.valueOf\<close> returns), an absent optional field is \<open>None\<close>.
  JavaScript strings are kept as byte strings in UTF-8, so an accented letter of a message
  is two characters; the few that occur are named below. The current time (\<^verbatim>\<open>new Date()\<close>,
  \<^verbatim>\<open>Date.now()\<close>) and the authenticated user (\<^verbatim>\<open>req.user.id\<close>) are explicit arguments.
\<close>

definition E_acute :: string where
  "E_acute = [CHR 0xC3, CHR 0x89]"

definition e_acute :: string where
  "e_acute = [CHR 0xC3, CHR 0xA9]"

definition e_grave :: string where
  "e_grave = [CHR 0xC3, CHR 0xA8]"

definition a_grave :: string where
  "a_grave = [CHR 0xC3, CHR 0xA0]"

text \<open>A number interpolated into a template literal: its decimal digits.\<close>

fun decimal :: "nat \<Rightarrow> string" where
  "decimal n =
     (if n < 10 then [char_of (48 + n)]
      else decimal (n div 10) @ [char_of (48 + n mod 10)])"

declare decimal.simps [simp del]

section \<open>Numbers and dates\<close>

text \<open>
  A JavaScript number is a double. \<open>round_double\<close> is the rounding of a rational to the
  nearest double, ties to even, for magnitudes of the normal range (no overflow, no
  subnormal numbers): with \<open>floor_log2\<close> of the magnitude as exponent, the magnitude is
  rounded to a multiple of the unit in the last place of its 53-bit significand. The
  result of an arithmetic operation on doubles is the rounding of its exact result.
\<close>

definition floor_log2 :: "rat \<Rightarrow> int" where
  "floor_log2 x =
     (let (p, q) = quotient_of x; k = bitlen p - bitlen q
      in if 2 powi k \<le> x then k else k - 1)"

definition round_double :: "rat \<Rightarrow> rat" where
  "round_double x =
     (if x = 0 then 0
      else
        (let a = \<bar>x\<bar>;
             ulp = 2 powi (floor_log2 a - 52);
             q = a / ulp;
             f = \<lfloor>q\<rfloor>;
             r = q - of_int f;
             m = (if r < 1 / 2 then f else if 1 / 2 < r then f + 1
                  else if even f then f else f + 1)
         in sgn x * of_int m * ulp))"

text \<open>\<^verbatim>\<open>Math.round\<close>: the nearest integer, a half rounded upwards.\<close>

definition Math_round :: "rat \<Rightarrow> int" where
  "Math_round x = \<lfloor>x + 1 / 2\<rfloor>"

text \<open>
  A \<^verbatim>\<open>Date\<close> holds a time value of at most 8.64e15 milliseconds in magnitude; beyond
  it \<^verbatim>\<open>new Date(t)\<close> is an Invalid Date.
\<close>

definition valid_date :: "int \<Rightarrow> bool" where
  "valid_date t = (\<bar>t\<bar> \<le> 8640000000000000)"

section \<open>Status machines\<close>

subsection \<open>Property progress (routes/properties.js and models/Property.js)\<close>

text \<open>
  \<^verbatim>\<open>getProgressPercentage\<close> reads a key of the object literal \<^verbatim>\<open>statusProgress\<close> and
  falls back to 0 when the value read is falsy. The literal is an ordinary object: a key
  that is not one of its own is looked up in \<^verbatim>\<open>Object.prototype\<close>, whose members
  (functions, and the prototype object itself under \<^verbatim>\<open>__proto__\<close>) are truthy. A value
  read is therefore a number of the table, a member of the prototype, or
  \<^verbatim>\<open>undefined\<close>.
\<close>

datatype js_value = Undefined | Num nat | Builtin string

definition Object_prototype_keys :: "string list" where
  "Object_prototype_keys =
     [''constructor'', ''__defineGetter__'', ''__defineSetter__'', ''hasOwnProperty'',
      ''__lookupGetter__'', ''__lookupSetter__'', ''isPrototypeOf'',
      ''propertyIsEnumerable'', ''toString'', ''valueOf'', ''__proto__'',
      ''toLocaleString'']"

definition statusProgress :: "(string \<times> nat) list" where
  "statusProgress =
     [(''searching'', 10),
      (''visiting'', 20),
      (''offer_made'', 40),
      (''compromis_signed'', 60),
      (''loan_pending'', 75),
      (''final_signature'', 90),
      (''keys_received'', 100),
      (''cancelled'', 0)]"

text \<open>The read \<^verbatim>\<open>obj[key]\<close> of an object literal with the given own properties.\<close>

definition js_get :: "(string \<times> nat) list \<Rightarrow> string \<Rightarrow> js_value" where
  "js_get obj k =
     (case map_of obj k of
        Some v \<Rightarrow> Num v
      | None \<Rightarrow> if k \<in> set Object_prototype_keys then Builtin k else Undefined)"

fun truthy :: "js_value \<Rightarrow> bool" where
  "truthy Undefined = False"
| "truthy (Num n) = (n \<noteq> 0)"
| "truthy (Builtin k) = True"

text \<open>\<^verbatim>\<open>return statusProgress[status] || 0;\<close>\<close>

definition getProgressPercentage :: "string \<Rightarrow> js_value" where
  "getProgressPercentage status =
     (let v = js_get statusProgress status in if truthy v then v else Num 0)"

text \<open>The status enumeration of \<^verbatim>\<open>propertySchema.status\<close>.\<close>

definition property_statuses :: "string list" where
  "property_statuses =
     [''searching'', ''visiting'', ''offer_made'', ''compromis_signed'', ''loan_pending'',
      ''final_signature'', ''keys_received'', ''cancelled'']"

subsection \<open>Steps (models/Step.js)\<close>

record checklist_item =
  item :: string
  completed :: bool
  completedAt :: "int option"

text \<open>
  The \<^verbatim>\<open>costs\<close> field of a stored step. The schema declares an embedded object
  \<^verbatim>\<open>{estimated, actual, currency}\<close>; the analytics pipeline addresses it as an array of
  entries \<^verbatim>\<open>{category, amount}\<close>. A stored document holds one or the other.
\<close>

record cost_entry =
  cost_category :: string
  cost_amount :: int

datatype costs_field =
    CostsObject "int option" "int option" string
  | CostsEntries "cost_entry list"

record step =
  s_id :: nat
  s_property :: nat
  s_name :: string
  s_category :: string
  s_status :: string
  s_priority :: string
  s_order :: nat
  s_actualStart :: "int option"
  s_actualEnd :: "int option"
  s_deadline :: "int option"
  s_checklist :: "checklist_item list"
  s_costs :: costs_field
  s_completionPercentage :: nat
  s_isActive :: bool
  s_updatedAt :: int

text \<open>
  The virtual \<^verbatim>\<open>isOverdue\<close>: false without a deadline or when the status is
  \<^verbatim>\<open>completed\<close>, otherwise whether the current time is past the deadline.
\<close>

definition isOverdue :: "int \<Rightarrow> step \<Rightarrow> bool" where
  "isOverdue now s =
     (if s_deadline s = None \<or> s_status s = ''completed'' then False
      else now > the (s_deadline s))"

text \<open>
  The virtual \<^verbatim>\<open>checklistCompletion\<close>. The quotient
  \<^verbatim>\<open>Math.round((completed / this.checklist.length) * 100)\<close> is the argument
  \<open>percent\<close>, applied to the number of completed items and to the length of the
  checklist. \<open>percent_double\<close> is that quotient as the source computes it: a division
  and a multiplication of doubles, then \<^verbatim>\<open>Math.round\<close>.
\<close>

definition checklistCompletion :: "(nat \<Rightarrow> nat \<Rightarrow> nat) \<Rightarrow> step \<Rightarrow> nat" where
  "checklistCompletion percent s =
     (if length (s_checklist s) = 0 then 100
      else percent (length (filter completed (s_checklist s))) (length (s_checklist s)))"

definition percent_double :: "nat \<Rightarrow> nat \<Rightarrow> nat" where
  "percent_double c n =
     nat (Math_round (round_double (round_double (of_nat c / of_nat n) * 100)))"

text \<open>
  The \<^verbatim>\<open>pre('save')\<close> hook of the step schema. \<open>modChecklist\<close> and \<open>modStatus\<close> are
  \<^verbatim>\<open>this.isModified('checklist')\<close> and \<^verbatim>\<open>this.isModified('status')\<close>.
\<close>

definition step_pre_save :: "(nat \<Rightarrow> nat \<Rightarrow> nat) \<Rightarrow> bool \<Rightarrow> bool \<Rightarrow> step \<Rightarrow> step" where
  "step_pre_save percent modChecklist modStatus s =
     (if modChecklist \<or> modStatus then
        (let checklistPercent = checklistCompletion percent s in
         if s_status s = ''completed'' then s\<lparr>s_completionPercentage := 100\<rparr>
         else if s_status s = ''in_progress'' then
           s\<lparr>s_completionPercentage := max checklistPercent 10\<rparr>
         else if s_status s = ''todo'' then s\<lparr>s_completionPercentage := 0\<rparr>
         else s)
      else s)"

section \<open>Alert deriver (GET /api/dashboard/overview)\<close>

record alert =
  alert_type :: string
  alert_title :: string
  alert_message :: string
  alert_count :: nat
  alert_priority :: string

text \<open>
  The three counts come from \<^verbatim>\<open>countDocuments\<close>. Each \<^verbatim>\<open>alerts.push\<close> appends to the
  list built so far.
\<close>

definition alerts :: "nat \<Rightarrow> nat \<Rightarrow> nat \<Rightarrow> alert list" where
  "alerts overdueSteps upcomingSteps overdueEvents =
     (let alerts0 = [];
          alerts1 =
            (if overdueSteps > 0 then
               alerts0 @
               [\<lparr>alert_type = ''warning'',
                 alert_title = E_acute @ ''tapes en retard'',
                 alert_message =
                   ''Vous avez '' @ decimal overdueSteps @ '' '' @ e_acute @
                   ''tape(s) en retard'',
                 alert_count = overdueSteps,
                 alert_priority = ''high''\<rparr>]
             else alerts0);
          alerts2 =
            (if upcomingSteps > 0 then
               alerts1 @
               [\<lparr>alert_type = ''info'',
                 alert_title = E_acute @ ''tapes '' @ a_grave @ '' venir'',
                 alert_message =
                   decimal upcomingSteps @ '' '' @ e_acute @ ''tape(s) '' @ a_grave @
                   '' r'' @ e_acute @ ''aliser dans les 7 prochains jours'',
                 alert_count = upcomingSteps,
                 alert_priority = ''medium''\<rparr>]
             else alerts1);
          alerts3 =
            (if overdueEvents > 0 then
               alerts2 @
               [\<lparr>alert_type = ''error'',
                 alert_title = E_acute @ ''v'' @ e_acute @ ''nements en retard'',
                 alert_message =
                   decimal overdueEvents @ '' '' @ e_acute @ ''v'' @ e_acute @
                   ''nement(s) non trait'' @ e_acute @ ''(s)'',
                 alert_count = overdueEvents,
                 alert_priority = ''high''\<rparr>]
             else alerts2)
      in alerts3)"

text \<open>What a caller reads of an alert besides its texts.\<close>

definition alert_key :: "alert \<Rightarrow> string \<times> string \<times> nat" where
  "alert_key a = (alert_type a, alert_priority a, alert_count a)"

section \<open>Stored records and visibility\<close>

record photo =
  url :: string
  caption :: string
  isPrimary :: bool
  uploadedAt :: int

text \<open>
  Of a property, the fields the routes below read. \<open>p_sharedWith\<close> lists the
  \<^verbatim>\<open>user\<close> of every entry of \<^verbatim>\<open>sharedWith\<close>, in order; \<open>p_city\<close> and \<open>p_street\<close> are
  \<^verbatim>\<open>address.city\<close> and \<^verbatim>\<open>address.street\<close>, \<open>p_price\<close> is \<^verbatim>\<open>price.amount\<close> and
  \<open>p_surface\<close> is \<^verbatim>\<open>details.surface\<close>.
\<close>

record property =
  p_id :: nat
  p_owner :: nat
  p_title :: string
  p_description :: "string option"
  p_street :: string
  p_city :: string
  p_price :: int
  p_surface :: int
  p_photos :: "photo list"
  p_status :: string
  p_isActive :: bool
  p_sharedWith :: "nat list"
  p_createdAt :: int

record document =
  d_id :: nat
  d_property :: nat
  d_name :: string
  d_category :: string
  d_isActive :: bool
  d_sharedWith :: "nat list"
  d_createdAt :: int

record event =
  e_id :: nat
  e_owner :: nat
  e_property :: "nat option"
  e_title :: string
  e_type :: string
  e_isActive :: bool
  e_sharedWith :: "nat list"
  e_createdAt :: int

text \<open>The collections, each in storage order, and the identifiers of the existing users.\<close>

record store =
  properties :: "property list"
  steps :: "step list"
  documents :: "document list"
  events :: "event list"
  users :: "nat list"

text \<open>
  The filter \<^verbatim>\<open>{ $or: [{ owner: userId }, { 'sharedWith.user': userId }], isActive: true }\<close>
  of the dashboard routes.
\<close>

definition propertyFilter :: "nat \<Rightarrow> property \<Rightarrow> bool" where
  "propertyFilter userId p =
     ((p_owner p = userId \<or> userId \<in> set (p_sharedWith p)) \<and> p_isActive p)"

definition calendarFilter :: "nat \<Rightarrow> event \<Rightarrow> bool" where
  "calendarFilter userId e =
     ((e_owner e = userId \<or> userId \<in> set (e_sharedWith e)) \<and> e_isActive e)"

text \<open>A failed request: the HTTP status and the message of the JSON body.\<close>

datatype failure = Failure nat string

definition internal_error :: failure where
  "internal_error = Failure 500 ''Erreur interne du serveur''"

definition access_denied :: failure where
  "access_denied = Failure 403 (''Acc'' @ e_grave @ ''s refus'' @ e_acute)"

section \<open>Property routes (routes/properties.js)\<close>

text \<open>
  The query of GET /api/properties after \<^verbatim>\<open>express-validator\<close>: \<open>page\<close> and \<open>limit\<close>
  with their defaults 1 and 10 filled in, the optional filters absent as \<open>None\<close>. The
  regular expressions built from \<^verbatim>\<open>city\<close> and \<^verbatim>\<open>search\<close> are the predicates they
  decide on a string.
\<close>

record list_query =
  q_page :: nat
  q_limit :: nat
  q_status :: "string option"
  q_city :: "(string \<Rightarrow> bool) option"
  q_minPrice :: "int option"
  q_maxPrice :: "int option"
  q_minSurface :: "int option"
  q_maxSurface :: "int option"
  q_search :: "(string \<Rightarrow> bool) option"

definition default_query :: list_query where
  "default_query =
     \<lparr>q_page = 1, q_limit = 10, q_status = None, q_city = None, q_minPrice = None,
      q_maxPrice = None, q_minSurface = None, q_maxSurface = None, q_search = None\<rparr>"

text \<open>
  The filter object built by the route, starting from
  \<^verbatim>\<open>{ owner: req.user.id, isActive: true }\<close>.
\<close>

definition list_filter :: "nat \<Rightarrow> list_query \<Rightarrow> property \<Rightarrow> bool" where
  "list_filter userId q p =
     (p_owner p = userId \<and> p_isActive p \<and>
      (case q_status q of None \<Rightarrow> True | Some s \<Rightarrow> p_status p = s) \<and>
      (case q_city q of None \<Rightarrow> True | Some re \<Rightarrow> re (p_city p)) \<and>
      (case q_minPrice q of None \<Rightarrow> True | Some m \<Rightarrow> m \<le> p_price p) \<and>
      (case q_maxPrice q of None \<Rightarrow> True | Some m \<Rightarrow> p_price p \<le> m) \<and>
      (case q_minSurface q of None \<Rightarrow> True | Some m \<Rightarrow> m \<le> p_surface p) \<and>
      (case q_maxSurface q of None \<Rightarrow> True | Some m \<Rightarrow> p_surface p \<le> m) \<and>
      (case q_search q of
         None \<Rightarrow> True
       | Some re \<Rightarrow>
           re (p_title p) \<or> (case p_description p of None \<Rightarrow> False | Some d \<Rightarrow> re d) \<or>
           re (p_street p) \<or> re (p_city p)))"

text \<open>
  GET /api/properties: the validation of the query, then the page of the matching
  properties. \<open>key\<close> is the order the storage engine derives from \<^verbatim>\<open>sortOptions\<close>
  (\<^verbatim>\<open>createdAt\<close> descending by default). The response adds two derived fields to every
  property of the page and the pagination counters; the properties are these.
\<close>

definition list_properties ::
  "(property \<Rightarrow> 'k::linorder) \<Rightarrow> nat \<Rightarrow> list_query \<Rightarrow> store \<Rightarrow> failure + property list" where
  "list_properties key userId q st =
     (if q_page q < 1 \<or> q_limit q < 1 \<or> q_limit q > 100 \<or>
         (case q_status q of None \<Rightarrow> False | Some s \<Rightarrow> s \<notin> set property_statuses)
      then Inl (Failure 400 (''Param'' @ e_grave @ ''tres invalides''))
      else
        (let skip = (q_page q - 1) * q_limit q
         in Inr (take (q_limit q)
                  (drop skip (sort_key key (filter (list_filter userId q) (properties st)))))))"

definition createdAt_desc :: "property \<Rightarrow> int" where
  "createdAt_desc p = - p_createdAt p"

text \<open>
  The identifier of a path \<^verbatim>\<open>/:id\<close> is \<open>None\<close> when the string cannot be cast to an
  ObjectId: the query then throws a CastError and the catch block of the route answers
  500.

  GET /api/properties/:id: \<^verbatim>\<open>findOne\<close> with the identifier and the owner-or-shared
  alternative, then the steps of the property by ascending \<^verbatim>\<open>order\<close> and the progress.
\<close>

definition property_not_found :: failure where
  "property_not_found =
     Failure 404 (''Propri'' @ e_acute @ ''t'' @ e_acute @ '' non trouv'' @ e_acute @ ''e'')"

definition get_property ::
  "nat \<Rightarrow> nat option \<Rightarrow> store \<Rightarrow> failure + (property \<times> js_value \<times> step list)" where
  "get_property userId rid st =
     (case rid of
        None \<Rightarrow> Inl internal_error
      | Some i \<Rightarrow>
          (case find (\<lambda>p. p_id p = i \<and> (p_owner p = userId \<or> userId \<in> set (p_sharedWith p)))
                  (properties st) of
             None \<Rightarrow> Inl property_not_found
           | Some p \<Rightarrow>
               Inr (p, getProgressPercentage (p_status p),
                    sort_key s_order (filter (\<lambda>s. s_property s = p_id p) (steps st)))))"

text \<open>
  The \<^verbatim>\<open>pre('save')\<close> hook of the property schema (models/Property.js), on the photos.
\<close>

definition photos_pre_save :: "photo list \<Rightarrow> photo list" where
  "photos_pre_save photos =
     (if length photos > 0 then
        (let primaryPhotos = filter isPrimary photos in
         if length primaryPhotos = 0 then photos[0 := (photos ! 0)\<lparr>isPrimary := True\<rparr>]
         else if length primaryPhotos > 1 then
           map (\<lambda>(index, photo). photo\<lparr>isPrimary := (index = 0)\<rparr>) (enumerate 0 photos)
         else photos)
      else photos)"

definition property_pre_save :: "property \<Rightarrow> property" where
  "property_pre_save p = p\<lparr>p_photos := photos_pre_save (p_photos p)\<rparr>"

section \<open>Single-record reads of documents, events and steps\<close>

text \<open>
  \<^verbatim>\<open>findById\<close>, and \<^verbatim>\<open>populate\<close> of a reference: the referenced record, or \<^verbatim>\<open>null\<close>
  when it does not exist.
\<close>

definition populate_property :: "store \<Rightarrow> nat \<Rightarrow> property option" where
  "populate_property st i = find (\<lambda>p. p_id p = i) (properties st)"

text \<open>
  The access checks of these routes compare \<^verbatim>\<open>x.toString() === req.user.id\<close>. The left
  operand is a string; the right one is the ObjectId \<^verbatim>\<open>user._id\<close> that the middleware
  stores (\<^verbatim>\<open>req.user = { id: user._id, ... }\<close>, middleware/auth.js). Strict equality of a
  string and an object is false, whatever the two identifiers. (In a query filter the
  same \<^verbatim>\<open>req.user.id\<close> is cast and compared as an identifier.)
\<close>

definition toString_is_user :: "nat \<Rightarrow> nat \<Rightarrow> bool" where
  "toString_is_user x userId = False"

text \<open>
  \<^verbatim>\<open>sharedWith.some(share => share.user._id.toString() === req.user.id)\<close> over populated
  users: the entries are visited in order up to the first match, and reading \<^verbatim>\<open>_id\<close> of
  a user that no longer exists throws (\<open>None\<close>).
\<close>

fun some_shared :: "nat list \<Rightarrow> nat \<Rightarrow> nat list \<Rightarrow> bool option" where
  "some_shared us userId [] = Some False"
| "some_shared us userId (x # xs) =
     (if x \<notin> set us then None
      else if toString_is_user x userId then Some True
      else some_shared us userId xs)"

text \<open>
  \<^verbatim>\<open>res.json\<close> of a record whose \<^verbatim>\<open>property\<close> is populated with a selection of
  fields: the property schema serialises with its virtuals, and these read fields that
  the selection leaves out (\<^verbatim>\<open>primaryPhoto\<close> calls \<^verbatim>\<open>this.photos.find\<close>), which throws;
  the catch block of the route answers 500.
\<close>

definition json_with_property :: "'a \<Rightarrow> failure + 'a" where
  "json_with_property r = Inl internal_error"

definition document_not_found :: failure where
  "document_not_found = Failure 404 (''Document non trouv'' @ e_acute)"

text \<open>
  GET /api/documents/:id (the route file follows models/Property.js in
  routes/properties.js). The property is populated with \<^verbatim>\<open>title owner\<close>; reading
  \<^verbatim>\<open>owner\<close> of a property that does not exist throws.
\<close>

definition get_document :: "nat \<Rightarrow> nat option \<Rightarrow> store \<Rightarrow> failure + document" where
  "get_document userId rid st =
     (case rid of
        None \<Rightarrow> Inl internal_error
      | Some i \<Rightarrow>
          (case find (\<lambda>d. d_id d = i) (documents st) of
             None \<Rightarrow> Inl document_not_found
           | Some d \<Rightarrow>
               (case populate_property st (d_property d) of
                  None \<Rightarrow> Inl internal_error
                | Some p \<Rightarrow>
                    (case (if toString_is_user (p_owner p) userId then Some True
                           else some_shared (users st) userId (d_sharedWith d)) of
                       None \<Rightarrow> Inl internal_error
                     | Some hasAccess \<Rightarrow>
                         if \<not> hasAccess then Inl access_denied else json_with_property d))))"

definition event_not_found :: failure where
  "event_not_found =
     Failure 404 (E_acute @ ''v'' @ e_acute @ ''nement non trouv'' @ e_acute)"

text \<open>
  GET /api/calendar/events/:id; the owner is populated as well, and the property, when
  the event has one, with \<^verbatim>\<open>title address owner\<close>.
\<close>

definition get_event :: "nat \<Rightarrow> nat option \<Rightarrow> store \<Rightarrow> failure + event" where
  "get_event userId rid st =
     (case rid of
        None \<Rightarrow> Inl internal_error
      | Some i \<Rightarrow>
          (case find (\<lambda>e. e_id e = i) (events st) of
             None \<Rightarrow> Inl event_not_found
           | Some e \<Rightarrow>
               (if e_owner e \<notin> set (users st) then Inl internal_error
                else
                  (case (if toString_is_user (e_owner e) userId then Some True
                         else some_shared (users st) userId (e_sharedWith e)) of
                     None \<Rightarrow> Inl internal_error
                   | Some hasAccess \<Rightarrow>
                       if \<not> hasAccess then Inl access_denied
                       else
                         (case e_property e of
                            None \<Rightarrow> Inr e
                          | Some j \<Rightarrow>
                              (case populate_property st j of
                                 None \<Rightarrow> Inr e
                               | Some p \<Rightarrow> json_with_property e))))))"

definition step_not_found :: failure where
  "step_not_found = Failure 404 (E_acute @ ''tape non trouv'' @ e_acute @ ''e'')"

text \<open>
  GET /api/steps/:id. The property is populated with \<^verbatim>\<open>title owner\<close>; when the owner
  test does not match, the property is looked up again with the caller in its share
  list.
\<close>

definition get_step :: "nat \<Rightarrow> nat option \<Rightarrow> store \<Rightarrow> failure + step" where
  "get_step userId rid st =
     (case rid of
        None \<Rightarrow> Inl internal_error
      | Some i \<Rightarrow>
          (case find (\<lambda>s. s_id s = i) (steps st) of
             None \<Rightarrow> Inl step_not_found
           | Some s \<Rightarrow>
               (case populate_property st (s_property s) of
                  None \<Rightarrow> Inl internal_error
                | Some p \<Rightarrow>
                    if \<not> toString_is_user (p_owner p) userId \<and>
                       find (\<lambda>q. p_id q = p_id p \<and> userId \<in> set (p_sharedWith q)) (properties st)
                         = None
                    then Inl access_denied
                    else json_with_property s)))"

section \<open>Dashboard (the dashboard routes in server.js)\<close>

subsection \<open>Overview summary\<close>

text \<open>\<^verbatim>\<open>Property.find(propertyFilter)\<close> of GET /api/dashboard/overview.\<close>

definition overview_properties :: "nat \<Rightarrow> store \<Rightarrow> property list" where
  "overview_properties userId st = filter (propertyFilter userId) (properties st)"

text \<open>The counters \<^verbatim>\<open>summary.activeProperties\<close> and \<^verbatim>\<open>summary.completedPurchases\<close>.\<close>

definition activeProperties :: "property list \<Rightarrow> nat" where
  "activeProperties ps =
     length (filter (\<lambda>p. p_status p \<in>
       set [''recherche'', ''visite'', ''negociation'', ''compromis'', ''financement'']) ps)"

definition completedPurchases :: "property list \<Rightarrow> nat" where
  "completedPurchases ps = length (filter (\<lambda>p. p_status p = ''cles_remises'') ps)"

subsection \<open>Recent activity\<close>

record activity =
  a_type :: string
  a_action :: string
  a_title :: string
  a_description :: string
  a_property :: "string option"
  a_date :: int
  a_icon :: string
  a_category :: string

text \<open>
  Modelled from the spec: the cursor limit of the storage collaborator, called as
  \<^verbatim>\<open>.limit(limit / 4)\<close>. The spec has each source "capped at limit/4 records (integer
  division; fractional remainders are silently dropped)"; the quotient is exact when 4
  divides the limit.
\<close>

definition query_limit :: "nat \<Rightarrow> nat \<Rightarrow> 'a list \<Rightarrow> 'a list" where
  "query_limit n d xs = take (n div d) xs"

text \<open>\<^verbatim>\<open>doc.property?.title\<close> after \<^verbatim>\<open>populate('property', 'title')\<close>.\<close>

definition property_title :: "store \<Rightarrow> nat \<Rightarrow> string option" where
  "property_title st i = map_option p_title (populate_property st i)"

definition step_activity :: "store \<Rightarrow> step \<Rightarrow> activity" where
  "step_activity st step =
     \<lparr>a_type = ''step'',
      a_action = ''updated'',
      a_title = E_acute @ ''tape mise '' @ a_grave @ '' jour: '' @ s_name step,
      a_description = ''Statut: '' @ s_status step,
      a_property = property_title st (s_property step),
      a_date = s_updatedAt step,
      a_icon = ''task'',
      a_category = s_category step\<rparr>"

definition document_activity :: "store \<Rightarrow> document \<Rightarrow> activity" where
  "document_activity st doc =
     \<lparr>a_type = ''document'',
      a_action = ''uploaded'',
      a_title = ''Document ajout'' @ e_acute @ '': '' @ d_name doc,
      a_description = ''Cat'' @ e_acute @ ''gorie: '' @ d_category doc,
      a_property = property_title st (d_property doc),
      a_date = d_createdAt doc,
      a_icon = ''document'',
      a_category = d_category doc\<rparr>"

definition event_activity :: "store \<Rightarrow> event \<Rightarrow> activity" where
  "event_activity st ev =
     \<lparr>a_type = ''event'',
      a_action = ''created'',
      a_title = E_acute @ ''v'' @ e_acute @ ''nement cr'' @ e_acute @ e_acute @ '': '' @ e_title ev,
      a_description = ''Type: '' @ e_type ev,
      a_property = (case e_property ev of None \<Rightarrow> None | Some i \<Rightarrow> property_title st i),
      a_date = e_createdAt ev,
      a_icon = ''calendar'',
      a_category = e_type ev\<rparr>"

definition property_activity :: "property \<Rightarrow> activity" where
  "property_activity p =
     \<lparr>a_type = ''property'',
      a_action = ''created'',
      a_title = ''Nouvelle propri'' @ e_acute @ ''t'' @ e_acute @ '': '' @ p_title p,
      a_description = ''Ville: '' @ p_city p,
      a_property = Some (p_title p),
      a_date = p_createdAt p,
      a_icon = ''home'',
      a_category = p_status p\<rparr>"

text \<open>
  The four queries of GET /api/dashboard/recent-activity, each sorted by its date
  descending and limited; \<open>since\<close> is the start of the window and \<open>limit\<close> the requested
  limit.
\<close>

definition recentSteps :: "nat \<Rightarrow> int \<Rightarrow> nat \<Rightarrow> store \<Rightarrow> step list" where
  "recentSteps userId since limit st =
     (let propertyIds = map p_id (filter (propertyFilter userId) (properties st))
      in query_limit limit 4
           (sort_key (\<lambda>s. - s_updatedAt s)
              (filter (\<lambda>s. s_property s \<in> set propertyIds \<and> s_isActive s \<and> since \<le> s_updatedAt s)
                 (steps st))))"

definition recentDocuments :: "nat \<Rightarrow> int \<Rightarrow> nat \<Rightarrow> store \<Rightarrow> document list" where
  "recentDocuments userId since limit st =
     (let propertyIds = map p_id (filter (propertyFilter userId) (properties st))
      in query_limit limit 4
           (sort_key (\<lambda>d. - d_createdAt d)
              (filter (\<lambda>d. d_property d \<in> set propertyIds \<and> d_isActive d \<and> since \<le> d_createdAt d)
                 (documents st))))"

definition recentEvents :: "nat \<Rightarrow> int \<Rightarrow> nat \<Rightarrow> store \<Rightarrow> event list" where
  "recentEvents userId since limit st =
     query_limit limit 4
       (sort_key (\<lambda>e. - e_createdAt e)
          (filter (\<lambda>e. calendarFilter userId e \<and> since \<le> e_createdAt e) (events st)))"

definition recentProperties :: "nat \<Rightarrow> int \<Rightarrow> nat \<Rightarrow> store \<Rightarrow> property list" where
  "recentProperties userId since limit st =
     query_limit limit 4
       (sort_key (\<lambda>p. - p_createdAt p)
          (filter (\<lambda>p. propertyFilter userId p \<and> since \<le> p_createdAt p) (properties st)))"

text \<open>
  The route. \<open>limit_q\<close> and \<open>days_q\<close> are \<^verbatim>\<open>parseInt\<close> of the query parameters, \<open>None\<close>
  for \<^verbatim>\<open>NaN\<close> (parameter absent or not a number); negative numbers are not modelled.
  \<open>window_start\<close> is the time value of \<^verbatim>\<open>since\<close>, with \<^verbatim>\<open>days\<close> defaulting to 7;
  when it is out of the range of dates, \<^verbatim>\<open>since\<close> is an Invalid Date, the date filter
  of the queries cannot be cast and the catch block answers 500.
  \<^verbatim>\<open>Array.prototype.sort\<close> is stable, as \<open>sort_key\<close> is.
\<close>

definition js_or_default :: "nat option \<Rightarrow> nat \<Rightarrow> nat" where
  "js_or_default parsed d = (case parsed of None \<Rightarrow> d | Some n \<Rightarrow> if n = 0 then d else n)"

definition window_start :: "int \<Rightarrow> nat option \<Rightarrow> int" where
  "window_start now days_q = now - int (js_or_default days_q 7) * 24 * 60 * 60 * 1000"

text \<open>The four queries, the activities pushed in the order of the source, the sort and the slice.\<close>

definition activity_feed :: "nat \<Rightarrow> int \<Rightarrow> nat \<Rightarrow> store \<Rightarrow> activity list" where
  "activity_feed userId since limit st =
     (let activities =
            map (step_activity st) (recentSteps userId since limit st) @
            map (document_activity st) (recentDocuments userId since limit st) @
            map (event_activity st) (recentEvents userId since limit st) @
            map property_activity (recentProperties userId since limit st)
      in take limit (sort_key (\<lambda>a. - a_date a) activities))"

definition recent_activity ::
  "nat \<Rightarrow> int \<Rightarrow> nat option \<Rightarrow> nat option \<Rightarrow> store \<Rightarrow> failure + activity list" where
  "recent_activity userId now limit_q days_q st =
     (let limit = js_or_default limit_q 20;
          since = window_start now days_q
      in if \<not> valid_date since then Inl internal_error
         else Inr (activity_feed userId since limit st))"

subsection \<open>Costs by category (GET /api/dashboard/analytics)\<close>

text \<open>
  The stage \<^verbatim>\<open>$match: { isActive: true, 'costs.amount': { $gt: 0 } }\<close> selects documents:
  a path through an array matches when some element does, and a document whose
  \<^verbatim>\<open>costs\<close> is the object of the schema has no \<^verbatim>\<open>costs.amount\<close>.
\<close>

definition costs_match :: "step \<Rightarrow> bool" where
  "costs_match s =
     (s_isActive s \<and>
      (case s_costs s of
         CostsObject est act cur \<Rightarrow> False
       | CostsEntries cs \<Rightarrow> list_ex (\<lambda>c. cost_amount c > 0) cs))"

text \<open>
  \<^verbatim>\<open>$unwind: '$costs'\<close>: one record for each element of the array of a selected
  document (a document with the object of the schema is never selected).
\<close>

definition unwind_costs :: "step \<Rightarrow> cost_entry list" where
  "unwind_costs s =
     (case s_costs s of CostsObject est act cur \<Rightarrow> [] | CostsEntries cs \<Rightarrow> cs)"

record cost_row =
  row_category :: string
  row_total :: int
  row_count :: nat
  row_average :: rat

text \<open>
  \<^verbatim>\<open>$avg\<close> is the quotient of the sum by the count, a double; the response rounds it with
  \<^verbatim>\<open>Math.round(x * 100) / 100\<close>, a multiplication and a division of doubles.
\<close>

definition average :: "int list \<Rightarrow> rat" where
  "average amounts = round_double (of_int (sum_list amounts) / of_nat (length amounts))"

definition round_cents :: "rat \<Rightarrow> rat" where
  "round_cents x = round_double (of_int (Math_round (round_double (x * 100))) / 100)"

text \<open>
  The pipeline: \<^verbatim>\<open>$match\<close>, \<^verbatim>\<open>$unwind\<close>, \<^verbatim>\<open>$group\<close> by \<^verbatim>\<open>costs.category\<close> with the sum,
  the count and the average of the amounts, \<^verbatim>\<open>$sort\<close> by the sum descending, then the
  mapping to the rows of the response. The order in which \<^verbatim>\<open>$group\<close> emits its groups is
  left open by the storage engine; here it is that of \<open>remdups\<close>.
\<close>

definition costsByCategory :: "store \<Rightarrow> cost_row list" where
  "costsByCategory st =
     (let matched = filter costs_match (steps st);
          unwound = concat (map unwind_costs matched);
          grouped =
            map (\<lambda>c. (c, map cost_amount (filter (\<lambda>e. cost_category e = c) unwound)))
              (remdups (map cost_category unwound));
          sorted = sort_key (\<lambda>(c, amounts). - sum_list amounts) grouped
      in map (\<lambda>(c, amounts).
                \<lparr>row_category = c,
                 row_total = sum_list amounts,
                 row_count = length amounts,
                 row_average = round_cents (average amounts)\<rparr>)
           sorted)"

section \<open>Example records\<close>

text \<open>
  The first default step that \<^verbatim>\<open>createDefaultSteps\<close> inserts for a new property: in
  progress, with an empty checklist.
\<close>

definition example_step :: "nat \<Rightarrow> int \<Rightarrow> step" where
  "example_step i t =
     \<lparr>s_id = i, s_property = 10, s_name = ''Recherche active'', s_category = ''recherche'',
      s_status = ''in_progress'', s_priority = ''medium'', s_order = 1,
      s_actualStart = None, s_actualEnd = None, s_deadline = None, s_checklist = [],
      s_costs = CostsObject None None ''EUR'', s_completionPercentage = 0,
      s_isActive = True, s_updatedAt = t\<rparr>"

definition cancelled_step :: step where
  "cancelled_step = (example_step 41 0)\<lparr>s_status := ''cancelled'', s_deadline := Some 1000\<rparr>"

definition example_photo :: "string \<Rightarrow> bool \<Rightarrow> photo" where
  "example_photo u b = \<lparr>url = u, caption = [], isPrimary = b, uploadedAt = 0\<rparr>"

text \<open>A property of user 1, shared with user 2.\<close>

definition example_property :: "int \<Rightarrow> property" where
  "example_property t =
     \<lparr>p_id = 10, p_owner = 1, p_title = ''Appartement'', p_description = None,
      p_street = ''1 rue de la Paix'', p_city = ''Paris'', p_price = 300000, p_surface = 50,
      p_photos = [example_photo ''/uploads/properties/a.png'' False,
                  example_photo ''/uploads/properties/b.png'' True,
                  example_photo ''/uploads/properties/c.png'' True],
      p_status = ''searching'', p_isActive = True, p_sharedWith = [2], p_createdAt = t\<rparr>"

definition example_document :: "nat \<Rightarrow> int \<Rightarrow> document" where
  "example_document i t =
     \<lparr>d_id = i, d_property = 10, d_name = ''Compromis'', d_category = ''compromis'',
      d_isActive = True, d_sharedWith = [], d_createdAt = t\<rparr>"

definition example_event :: "nat \<Rightarrow> int \<Rightarrow> event" where
  "example_event i t =
     \<lparr>e_id = i, e_owner = 1, e_property = Some 10, e_title = ''Visite'', e_type = ''visite'',
      e_isActive = True, e_sharedWith = [], e_createdAt = t\<rparr>"

definition day :: "int \<Rightarrow> int" where
  "day n = n * 86400000"

text \<open>
  One property (day 1), two events (days 2 and 3), four documents (days 4 to 7) and
  four steps (days 8 to 11).
\<close>

definition example_store :: store where
  "example_store =
     \<lparr>properties = [example_property (day 1)],
      steps = [example_step 40 (day 8), example_step 41 (day 9), example_step 42 (day 10),
               example_step 43 (day 11)],
      documents = [example_document 20 (day 4), example_document 21 (day 5),
                   example_document 22 (day 6), example_document 23 (day 7)],
      events = [example_event 30 (day 2), example_event 31 (day 3)],
      users = [1, 2, 3]\<rparr>"

section \<open>Theorems\<close>

subsection \<open>Alerts\<close>

lemma alerts_keys:
  "map alert_key (alerts os us oe) =
     (if os > 0 then [(''warning'', ''high'', os)] else []) @
     (if us > 0 then [(''info'', ''medium'', us)] else []) @
     (if oe > 0 then [(''error'', ''high'', oe)] else [])"
  by (simp add: alerts_def alert_key_def Let_def)

lemma decimal_3: "decimal 3 = ''3''"
  by code_simp

lemma alerts_3_0_0:
  "alerts 3 0 0 =
     [\<lparr>alert_type = ''warning'',
       alert_title = E_acute @ ''tapes en retard'',
       alert_message = ''Vous avez 3 '' @ e_acute @ ''tape(s) en retard'',
       alert_count = 3,
       alert_priority = ''high''\<rparr>]"
  by (simp add: alerts_def decimal_3)

text \<open>
  C7. For the counts overdueSteps = 3, upcomingSteps = 0, overdueEvents = 0 the alert
  deriver emits exactly one alert, of type warning, priority high and count 3. For any
  counts, the alerts emitted are those of the non-zero counts among overdue steps,
  upcoming steps and overdue events, in that order.
\<close>

theorem alerts_fixed_order_nonzero:
  "alerts 3 0 0 =
     [\<lparr>alert_type = ''warning'',
       alert_title = E_acute @ ''tapes en retard'',
       alert_message = ''Vous avez 3 '' @ e_acute @ ''tape(s) en retard'',
       alert_count = 3,
       alert_priority = ''high''\<rparr>] \<and>
   map alert_key (alerts overdueSteps upcomingSteps overdueEvents) =
     filter (\<lambda>(t, p, c). c > 0)
       [(''warning'', ''high'', overdueSteps), (''info'', ''medium'', upcomingSteps),
        (''error'', ''high'', overdueEvents)]"
proof -
  have "map alert_key (alerts overdueSteps upcomingSteps overdueEvents) =
     filter (\<lambda>(t, p, c). c > 0)
       [(''warning'', ''high'', overdueSteps), (''info'', ''medium'', upcomingSteps),
        (''error'', ''high'', overdueEvents)]"
    by (simp add: alerts_keys)
  with alerts_3_0_0 show ?thesis
    by (rule conjI)
qed

subsection \<open>Property progress\<close>

lemma getProgressPercentage_enumeration:
  "map getProgressPercentage property_statuses = map Num [10, 20, 40, 60, 75, 90, 100, 0]"
  by (simp add: getProgressPercentage_def js_get_def statusProgress_def property_statuses_def)

lemma getProgressPercentage_other:
  assumes "status \<notin> set property_statuses" and "status \<notin> set Object_prototype_keys"
  shows "getProgressPercentage status = Num 0"
proof -
  have "map_of statusProgress status = None"
    using assms(1) by (simp add: statusProgress_def property_statuses_def)
  then show ?thesis
    using assms(2) by (simp add: getProgressPercentage_def js_get_def)
qed


subsection \<open>Step completion and overdue flag\<close>

text \<open>
  C1, as the claim states it, fails: for the in-progress step with an empty checklist
  that \<^verbatim>\<open>createDefaultSteps\<close> builds, the hook run after a change of status does not
  set the completion percentage to 10.
\<close>

theorem step_pre_save_empty_checklist_not_10:
  "s_status (example_step 40 0) = ''in_progress'' \<and> s_checklist (example_step 40 0) = [] \<and>
   s_completionPercentage (step_pre_save percent_double False True (example_step 40 0)) \<noteq> 10"
  by (simp add: step_pre_save_def checklistCompletion_def example_step_def)

text \<open>
  C1, amended. For every Step with status in_progress, after any change to status or
  checklist is saved the recomputed completionPercentage is at least 10, hence never 0;
  when the checklist is empty it equals 100, the value of \<^verbatim>\<open>checklistCompletion\<close> for
  an empty checklist.
\<close>

theorem step_pre_save_in_progress:
  assumes "s_status s = ''in_progress''" and "modChecklist \<or> modStatus"
  shows "10 \<le> s_completionPercentage (step_pre_save percent modChecklist modStatus s) \<and>
         s_completionPercentage (step_pre_save percent modChecklist modStatus s) \<noteq> 0 \<and>
         (s_checklist s = [] \<longrightarrow>
            s_completionPercentage (step_pre_save percent modChecklist modStatus s) = 100)"
  using assms by (auto simp add: step_pre_save_def checklistCompletion_def Let_def)

theorem step_pre_save_in_progress_witness:
  "s_status (example_step 40 0) = ''in_progress'' \<and> (False \<or> True) \<and>
   s_checklist (example_step 40 0) = [] \<and>
   10 \<le> s_completionPercentage (step_pre_save percent_double False True (example_step 40 0)) \<and>
   s_completionPercentage (step_pre_save percent_double False True (example_step 40 0)) = 100"
proof -
  have h1: "s_status (example_step 40 0) = ''in_progress''"
    by (simp add: example_step_def)
  have h2: "False \<or> True"
    by simp
  have h3: "s_checklist (example_step 40 0) = []"
    by (simp add: example_step_def)
  show ?thesis
    using h1 h3 step_pre_save_in_progress [OF h1 h2, of percent_double] by simp
qed

lemma isOverdue_completed: "s_status s = ''completed'' \<Longrightarrow> \<not> isOverdue now s"
  by (simp add: isOverdue_def)

text \<open>
  C2. The overdue flag of a cancelled Step is claimed to be false even when its
  deadline is strictly in the past. On the cancelled step with deadline 1000, read at
  time 2000, the virtual \<^verbatim>\<open>isOverdue\<close> is true: only the status completed is excluded.
\<close>

theorem isOverdue_cancelled_past_deadline:
  "s_status cancelled_step = ''cancelled'' \<and> s_deadline cancelled_step = Some 1000 \<and>
   isOverdue 2000 cancelled_step"
  by (simp add: isOverdue_def cancelled_step_def example_step_def)

subsection \<open>Visibility of the property list\<close>

text \<open>
  C5. The property list is claimed to return every active Property the caller owns or
  that is shared with the caller. The example property is active, owned by user 1 and
  shared with user 2: it passes the owner-or-shared filter for user 2 and the single
  read returns it to user 2, but the list with the default query returns it to user 1
  only and is empty for user 2.
\<close>

theorem list_properties_owner_only:
  "propertyFilter 2 (example_property (day 1)) \<and>
   list_properties createdAt_desc 2 default_query example_store = Inr [] \<and>
   list_properties createdAt_desc 1 default_query example_store =
     Inr [example_property (day 1)] \<and>
   get_property 2 (Some 10) example_store \<noteq> Inl property_not_found"
  by (simp add: propertyFilter_def list_properties_def list_filter_def default_query_def
      example_store_def example_property_def get_property_def)

subsection \<open>Costs by category\<close>

lemma costsByCategory_schema_object:
  assumes "\<forall>s\<in>set (steps st). \<exists>est act cur. s_costs s = CostsObject est act cur"
  shows "costsByCategory st = []"
proof -
  have "filter costs_match (steps st) = []"
    using assms by (auto simp add: filter_empty_conv costs_match_def)
  then show ?thesis
    by (simp add: costsByCategory_def)
qed


subsection \<open>Overview summary\<close>

lemma enumeration_not_counted:
  "s \<in> set property_statuses \<Longrightarrow>
   s \<notin> set [''recherche'', ''visite'', ''negociation'', ''compromis'', ''financement''] \<and>
   s \<noteq> ''cles_remises''"
  by (auto simp add: property_statuses_def)

text \<open>
  C9. In every storage state whose properties carry a status of the Property status
  enumeration, the overview counters activeProperties and completedPurchases are 0: the
  status values they count are not in the enumeration.
\<close>

theorem summary_counters_zero:
  assumes "\<forall>p\<in>set (properties st). p_status p \<in> set property_statuses"
  shows "activeProperties (overview_properties userId st) = 0 \<and>
         completedPurchases (overview_properties userId st) = 0"
proof -
  have "\<forall>p\<in>set (overview_properties userId st). p_status p \<in> set property_statuses"
    using assms by (simp add: overview_properties_def)
  then have a: "\<forall>p\<in>set (overview_properties userId st). p_status p \<notin>
        set [''recherche'', ''visite'', ''negociation'', ''compromis'', ''financement'']"
    and b: "\<forall>p\<in>set (overview_properties userId st). p_status p \<noteq> ''cles_remises''"
    using enumeration_not_counted by blast+
  from a have "activeProperties (overview_properties userId st) = 0"
    unfolding activeProperties_def by (simp only: length_0_conv filter_empty_conv)
  moreover from b have "completedPurchases (overview_properties userId st) = 0"
    unfolding completedPurchases_def by (simp only: length_0_conv filter_empty_conv)
  ultimately show ?thesis by simp
qed

theorem summary_counters_zero_witness:
  "map p_status (properties example_store) = [''searching''] \<and>
   ''searching'' \<in> set property_statuses \<and>
   overview_properties 2 example_store = [example_property (day 1)] \<and>
   activeProperties (overview_properties 2 example_store) = 0 \<and>
   completedPurchases (overview_properties 2 example_store) = 0"
proof -
  have h: "\<forall>p\<in>set (properties example_store). p_status p \<in> set property_statuses"
    by (simp add: example_store_def example_property_def property_statuses_def)
  have v: "overview_properties 2 example_store = [example_property (day 1)]"
    by (simp add: overview_properties_def propertyFilter_def example_store_def
        example_property_def)
  have m: "map p_status (properties example_store) = [''searching'']"
    by (simp add: example_store_def example_property_def)
  have e: "''searching'' \<in> set property_statuses"
    by (simp add: property_statuses_def)
  show ?thesis
    using m e v summary_counters_zero [OF h, of 2] by simp
qed

subsection \<open>Primary photo\<close>

lemma map_enumerate_not_first:
  "0 < n \<Longrightarrow>
   map (\<lambda>(index, photo). photo\<lparr>isPrimary := (index = 0)\<rparr>) (enumerate n xs) =
   map (\<lambda>photo. photo\<lparr>isPrimary := False\<rparr>) xs"
  by (induction xs arbitrary: n) auto

lemma map_enumerate_first:
  "map (\<lambda>(index, photo). photo\<lparr>isPrimary := (index = 0)\<rparr>) (enumerate 0 (x # xs)) =
   x\<lparr>isPrimary := True\<rparr> # map (\<lambda>photo. photo\<lparr>isPrimary := False\<rparr>) xs"
  by (simp add: map_enumerate_not_first)

lemma filter_cleared: "filter isPrimary (map (\<lambda>photo. photo\<lparr>isPrimary := False\<rparr>) xs) = []"
  by (induction xs) auto

lemma photos_pre_save_cases:
  assumes "photos \<noteq> []"
  shows "filter isPrimary photos = [] \<Longrightarrow>
           photos_pre_save photos = photos[0 := (photos ! 0)\<lparr>isPrimary := True\<rparr>]"
    and "1 < length (filter isPrimary photos) \<Longrightarrow>
           photos_pre_save photos =
           map (\<lambda>(index, photo). photo\<lparr>isPrimary := (index = 0)\<rparr>) (enumerate 0 photos)"
    and "length (filter isPrimary photos) = 1 \<Longrightarrow> photos_pre_save photos = photos"
  using assms by (auto simp add: photos_pre_save_def Let_def)

lemma photos_pre_save_none:
  assumes "filter isPrimary (x # xs) = []"
  shows "photos_pre_save (x # xs) = x\<lparr>isPrimary := True\<rparr> # xs"
proof -
  have "photos_pre_save (x # xs) = (x # xs)[0 := ((x # xs) ! 0)\<lparr>isPrimary := True\<rparr>]"
    using assms by (intro photos_pre_save_cases(1)) simp_all
  then show ?thesis by simp
qed

lemma photos_pre_save_several:
  assumes "1 < length (filter isPrimary (x # xs))"
  shows "photos_pre_save (x # xs) =
     x\<lparr>isPrimary := True\<rparr> # map (\<lambda>photo. photo\<lparr>isPrimary := False\<rparr>) xs"
proof -
  have "photos_pre_save (x # xs) =
     map (\<lambda>(index, photo). photo\<lparr>isPrimary := (index = 0)\<rparr>) (enumerate 0 (x # xs))"
    using assms by (intro photos_pre_save_cases(2)) simp_all
  then show ?thesis
    by (simp only: map_enumerate_first)
qed

lemma photos_pre_save_one:
  assumes "length (filter isPrimary (x # xs)) = 1"
  shows "photos_pre_save (x # xs) = x # xs"
  using assms by (intro photos_pre_save_cases(3)) simp_all


text \<open>
  C10. For every Property with a non-empty photos list, the save hook leaves exactly one
  photo with isPrimary=true: when no photo is marked primary the first photo of the list
  is made primary and the others are unchanged, and when several are marked the first
  photo of the list is primary and no other is.
\<close>

theorem property_pre_save_one_primary:
  assumes "p_photos p \<noteq> []"
  shows "length (filter isPrimary (p_photos (property_pre_save p))) = 1 \<and>
         (filter isPrimary (p_photos p) = [] \<longrightarrow>
            p_photos (property_pre_save p) =
              (p_photos p)[0 := (p_photos p ! 0)\<lparr>isPrimary := True\<rparr>]) \<and>
         (1 < length (filter isPrimary (p_photos p)) \<longrightarrow>
            p_photos (property_pre_save p) =
              (hd (p_photos p))\<lparr>isPrimary := True\<rparr> #
              map (\<lambda>photo. photo\<lparr>isPrimary := False\<rparr>) (tl (p_photos p)))"
proof -
  obtain x xs where ph: "p_photos p = x # xs"
    using assms by (cases "p_photos p") auto
  have r: "p_photos (property_pre_save p) = photos_pre_save (x # xs)"
    by (simp add: property_pre_save_def ph)
  define k where "k = length (filter isPrimary (x # xs))"
  consider (none) "k = 0" | (one) "k = 1" | (several) "1 < k"
    by linarith
  then show ?thesis
  proof cases
    case none
    then have e: "filter isPrimary (x # xs) = []"
      by (simp only: k_def length_0_conv)
    then have nx: "\<not> isPrimary x" and nxs: "filter isPrimary xs = []"
      by (auto split: if_splits)
    have "photos_pre_save (x # xs) = x\<lparr>isPrimary := True\<rparr> # xs"
      using e by (rule photos_pre_save_none)
    then show ?thesis
      using r ph nx nxs by simp
  next
    case one
    then have o: "length (filter isPrimary (x # xs)) = 1"
      by (simp only: k_def)
    have "photos_pre_save (x # xs) = x # xs"
      using o by (rule photos_pre_save_one)
    then show ?thesis
      using r ph o by auto
  next
    case several
    then have s: "1 < length (filter isPrimary (x # xs))"
      by (simp only: k_def)
    have "photos_pre_save (x # xs) =
        x\<lparr>isPrimary := True\<rparr> # map (\<lambda>photo. photo\<lparr>isPrimary := False\<rparr>) xs"
      using s by (rule photos_pre_save_several)
    moreover have "filter isPrimary (p_photos p) \<noteq> []"
      using s ph by auto
    ultimately show ?thesis
      using r ph by (simp add: filter_cleared)
  qed
qed

theorem property_pre_save_one_primary_witness:
  "p_photos (example_property 0) \<noteq> [] \<and>
   length (filter isPrimary (p_photos (example_property 0))) = 2 \<and>
   map isPrimary (p_photos (property_pre_save (example_property 0))) = [True, False, False] \<and>
   length (filter isPrimary (p_photos (property_pre_save (example_property 0)))) = 1"
proof -
  have h: "p_photos (example_property 0) \<noteq> []"
    by (simp add: example_property_def)
  have n: "length (filter isPrimary (p_photos (example_property 0))) = 2"
    by (simp add: example_property_def example_photo_def)
  have m: "map isPrimary (p_photos (property_pre_save (example_property 0))) =
      [True, False, False]"
    by (simp add: property_pre_save_def photos_pre_save_def example_property_def
        example_photo_def)
  show ?thesis
    using h n m property_pre_save_one_primary [OF h] by simp
qed

subsection \<open>Recent activity\<close>

lemma distinct_map_take_sort_key:
  assumes "distinct (map f xs)"
  shows "distinct (map f (take n (sort_key k xs)))"
proof -
  have "distinct (map f (sort_key k xs))"
    using assms by (simp add: distinct_map)
  then have "distinct (take n (map f (sort_key k xs)))"
    by (rule distinct_take)
  then show ?thesis
    by (simp only: take_map)
qed

lemma set_map_take_sort_key:
  "set (map f (take n (sort_key k xs))) \<subseteq> set (map f xs)"
proof -
  have "set (take n (sort_key k xs)) \<subseteq> set xs"
    using set_take_subset [of n "sort_key k xs"] by simp
  then show ?thesis
    by auto
qed

lemma sorted_take_sort_key:
  "sorted (map k (take n (sort_key k xs)))"
proof -
  have "sorted (take n (map k (sort_key k xs)))"
    by (rule sorted_wrt_take) (rule sorted_sort_key)
  then show ?thesis
    by (simp only: take_map)
qed

lemma descending_dates:
  fixes f :: "'a \<Rightarrow> int"
  assumes "distinct (map f ys)" and "sorted (map (\<lambda>a. - f a) ys)"
  shows "sorted_wrt (>) (map f ys)"
proof -
  have "distinct (map uminus (map f ys))"
    using assms(1) by (simp add: distinct_map inj_on_def)
  then have "distinct (map (\<lambda>a. - f a) ys)"
    by (simp add: comp_def)
  with assms(2) have "sorted_wrt (<) (map (\<lambda>a. - f a) ys)"
    by (simp add: strict_sorted_iff)
  then show ?thesis
    by (simp add: sorted_wrt_map)
qed

lemma take_sort_key_most_recent:
  fixes f :: "'a \<Rightarrow> int"
  assumes d: "distinct (map f xs)"
    and s: "s \<in> set (take n (sort_key (\<lambda>x. - f x) xs))"
    and t: "t \<in> set xs" "t \<notin> set (take n (sort_key (\<lambda>x. - f x) xs))"
  shows "f t < f s"
proof -
  let ?L = "sort_key (\<lambda>x. - f x) xs"
  have "set ?L = set (take n ?L) \<union> set (drop n ?L)"
    by (metis append_take_drop_id set_append)
  with t have td: "t \<in> set (drop n ?L)"
    by simp
  have "sorted (map (\<lambda>x. - f x) (take n ?L @ drop n ?L))"
    by (simp only: append_take_drop_id sorted_sort_key)
  then have "\<forall>x\<in>set (take n ?L). \<forall>y\<in>set (drop n ?L). - f x \<le> - f y"
    by (simp only: map_append sorted_append set_map) blast
  with s td have le: "f t \<le> f s"
    by fastforce
  have "s \<in> set xs"
    using s set_take_subset [of n ?L] by auto
  moreover have "s \<noteq> t"
    using s t(2) by blast
  ultimately have "f s \<noteq> f t"
    using d t(1) by (auto simp add: distinct_map inj_on_def)
  with le show ?thesis
    by simp
qed

lemma a_date_simps:
  "map a_date (map (step_activity st) ss) = map s_updatedAt ss"
  "map a_date (map (document_activity st) ds) = map d_createdAt ds"
  "map a_date (map (event_activity st) es) = map e_createdAt es"
  "map a_date (map property_activity ps) = map p_createdAt ps"
  by (simp_all add: step_activity_def document_activity_def event_activity_def
      property_activity_def)


text \<open>
  C3, as the claim states it, fails: with the property on day 1, the events on days 2
  and 3, the documents on days 4 to 7 and the steps on days 8 to 11, the feed for limit 8
  has the 7 records of days 11, 10, 7, 6, 3, 2 and 1, not the 8 most recent of the 11.
\<close>

theorem recent_activity_limit_8_seven_records:
  "recent_activity 1 (day 12) (Some 8) (Some 30) example_store =
     Inr (activity_feed 1 (window_start (day 12) (Some 30)) 8 example_store) \<and>
   map a_date (activity_feed 1 (window_start (day 12) (Some 30)) 8 example_store) =
     [day 11, day 10, day 7, day 6, day 3, day 2, day 1] \<and>
   length (activity_feed 1 (window_start (day 12) (Some 30)) 8 example_store) \<noteq> 8"
  by code_simp

text \<open>
  C3, amended. For a recent-activity request with limit 8, with a window start that is a
  valid date, over sources containing 4 steps, 4 documents, 2 events and 1 property, all
  visible, inside the time window and with pairwise distinct timestamps, each per-source
  query is capped at 8 / 4 = 2 records: the queries return the 2 most recently updated
  steps, the 2 most recently created documents, both events and the property. The feed,
  their activities sorted by date descending and truncated to 8, contains exactly these 7
  activity records, in strictly descending timestamp order.
\<close>

theorem recent_activity_limit_8:
  assumes lens: "length (steps st) = 4" "length (documents st) = 4"
      "length (events st) = 2" "length (properties st) = 1"
    and valid: "valid_date (window_start now days_q)"
    and visP: "\<forall>p\<in>set (properties st).
      propertyFilter userId p \<and> window_start now days_q \<le> p_createdAt p"
    and visS: "\<forall>s\<in>set (steps st). s_property s \<in> set (map p_id (properties st)) \<and>
      s_isActive s \<and> window_start now days_q \<le> s_updatedAt s"
    and visD: "\<forall>d\<in>set (documents st). d_property d \<in> set (map p_id (properties st)) \<and>
      d_isActive d \<and> window_start now days_q \<le> d_createdAt d"
    and visE: "\<forall>e\<in>set (events st).
      calendarFilter userId e \<and> window_start now days_q \<le> e_createdAt e"
    and dist: "distinct (map s_updatedAt (steps st) @ map d_createdAt (documents st) @
      map e_createdAt (events st) @ map p_createdAt (properties st))"
  shows "recent_activity userId now (Some 8) days_q st =
           Inr (activity_feed userId (window_start now days_q) 8 st) \<and>
         length (activity_feed userId (window_start now days_q) 8 st) = 7 \<and>
         sorted_wrt (>) (map a_date (activity_feed userId (window_start now days_q) 8 st)) \<and>
         set (activity_feed userId (window_start now days_q) 8 st) =
           step_activity st ` set (recentSteps userId (window_start now days_q) 8 st) \<union>
           document_activity st ` set (recentDocuments userId (window_start now days_q) 8 st) \<union>
           event_activity st ` set (events st) \<union>
           property_activity ` set (properties st) \<and>
         length (recentSteps userId (window_start now days_q) 8 st) = 2 \<and>
         set (recentSteps userId (window_start now days_q) 8 st) \<subseteq> set (steps st) \<and>
         (\<forall>s\<in>set (recentSteps userId (window_start now days_q) 8 st).
            \<forall>t\<in>set (steps st).
              t \<notin> set (recentSteps userId (window_start now days_q) 8 st) \<longrightarrow>
              s_updatedAt t < s_updatedAt s) \<and>
         length (recentDocuments userId (window_start now days_q) 8 st) = 2 \<and>
         set (recentDocuments userId (window_start now days_q) 8 st) \<subseteq> set (documents st) \<and>
         (\<forall>d\<in>set (recentDocuments userId (window_start now days_q) 8 st).
            \<forall>t\<in>set (documents st).
              t \<notin> set (recentDocuments userId (window_start now days_q) 8 st) \<longrightarrow>
              d_createdAt t < d_createdAt d) \<and>
         set (recentEvents userId (window_start now days_q) 8 st) = set (events st) \<and>
         set (recentProperties userId (window_start now days_q) 8 st) = set (properties st)"
proof -
  let ?since = "window_start now days_q"
  let ?S = "take 2 (sort_key (\<lambda>s. - s_updatedAt s) (steps st))"
  let ?D = "take 2 (sort_key (\<lambda>d. - d_createdAt d) (documents st))"
  let ?E = "take 2 (sort_key (\<lambda>e. - e_createdAt e) (events st))"
  let ?P = "take 2 (sort_key (\<lambda>p. - p_createdAt p) (properties st))"
  let ?A = "map (step_activity st) ?S @ map (document_activity st) ?D @
            map (event_activity st) ?E @ map property_activity ?P"
  have ids: "filter (propertyFilter userId) (properties st) = properties st"
    using visP by (simp only: filter_id_conv) blast
  have fS: "filter (\<lambda>s. s_property s \<in> set (map p_id (properties st)) \<and> s_isActive s \<and>
      ?since \<le> s_updatedAt s) (steps st) = steps st"
    using visS by (simp only: filter_id_conv)
  have fD: "filter (\<lambda>d. d_property d \<in> set (map p_id (properties st)) \<and> d_isActive d \<and>
      ?since \<le> d_createdAt d) (documents st) = documents st"
    using visD by (simp only: filter_id_conv)
  have fE: "filter (\<lambda>e. calendarFilter userId e \<and> ?since \<le> e_createdAt e) (events st) =
      events st"
    using visE by (simp only: filter_id_conv)
  have fP: "filter (\<lambda>p. propertyFilter userId p \<and> ?since \<le> p_createdAt p) (properties st) =
      properties st"
    using visP by (simp only: filter_id_conv)
  have q: "(8::nat) div 4 = 2"
    by simp
  have rS: "recentSteps userId ?since 8 st = ?S"
    by (simp only: recentSteps_def Let_def query_limit_def ids fS q)
  have rD: "recentDocuments userId ?since 8 st = ?D"
    by (simp only: recentDocuments_def Let_def query_limit_def ids fD q)
  have rE: "recentEvents userId ?since 8 st = ?E"
    by (simp only: recentEvents_def query_limit_def fE q)
  have rP: "recentProperties userId ?since 8 st = ?P"
    by (simp only: recentProperties_def query_limit_def fP q)
  have lS: "length ?S = 2" and lD: "length ?D = 2" and lE: "length ?E = 2"
    and lP: "length ?P = 1"
    using lens by simp_all
  have lA: "length ?A = 7"
    using lS lD lE lP by simp
  have lim: "js_or_default (Some 8) 20 = 8"
    by (simp add: js_or_default_def)
  have F: "activity_feed userId ?since 8 st = take 8 (sort_key (\<lambda>a. - a_date a) ?A)"
    by (simp only: activity_feed_def Let_def rS rD rE rP)
  have R: "recent_activity userId now (Some 8) days_q st =
      Inr (activity_feed userId ?since 8 st)"
    using valid by (simp add: recent_activity_def Let_def lim)
  have lR: "length (activity_feed userId ?since 8 st) = 7"
    using lA by (simp only: F length_take length_sort)
  have dS: "distinct (map s_updatedAt (steps st))"
    and dD: "distinct (map d_createdAt (documents st))"
    using dist by (simp_all only: distinct_append)
  have dS2: "distinct (map s_updatedAt ?S)" and dD2: "distinct (map d_createdAt ?D)"
    and dE2: "distinct (map e_createdAt ?E)" and dP2: "distinct (map p_createdAt ?P)"
    using dist by (simp_all only: distinct_append distinct_map_take_sort_key)
  have sS: "set (map s_updatedAt ?S) \<subseteq> set (map s_updatedAt (steps st))"
    and sD: "set (map d_createdAt ?D) \<subseteq> set (map d_createdAt (documents st))"
    and sE: "set (map e_createdAt ?E) \<subseteq> set (map e_createdAt (events st))"
    and sP: "set (map p_createdAt ?P) \<subseteq> set (map p_createdAt (properties st))"
    by (rule set_map_take_sort_key)+
  have disj: "set (map s_updatedAt (steps st)) \<inter> set (map d_createdAt (documents st)) = {}"
    "set (map s_updatedAt (steps st)) \<inter> set (map e_createdAt (events st)) = {}"
    "set (map s_updatedAt (steps st)) \<inter> set (map p_createdAt (properties st)) = {}"
    "set (map d_createdAt (documents st)) \<inter> set (map e_createdAt (events st)) = {}"
    "set (map d_createdAt (documents st)) \<inter> set (map p_createdAt (properties st)) = {}"
    "set (map e_createdAt (events st)) \<inter> set (map p_createdAt (properties st)) = {}"
    using dist by (simp_all only: distinct_append set_append) blast+
  have mA: "map a_date ?A = map s_updatedAt ?S @ map d_createdAt ?D @
      map e_createdAt ?E @ map p_createdAt ?P"
    by (simp only: map_append a_date_simps)
  have dA: "distinct (map a_date ?A)"
    unfolding mA using dS2 dD2 dE2 dP2 sS sD sE sP disj
    by (simp only: distinct_append set_append) blast
  have dR: "distinct (map a_date (take 8 (sort_key (\<lambda>a. - a_date a) ?A)))"
    using dA by (rule distinct_map_take_sort_key)
  have "sorted (map (\<lambda>a. - a_date a) (take 8 (sort_key (\<lambda>a. - a_date a) ?A)))"
    by (rule sorted_take_sort_key)
  with dR have "sorted_wrt (>) (map a_date (take 8 (sort_key (\<lambda>a. - a_date a) ?A)))"
    by (rule descending_dates)
  then have sR: "sorted_wrt (>) (map a_date (activity_feed userId ?since 8 st))"
    by (simp only: F)
  have eE: "set ?E = set (events st)"
    using lens(3) by simp
  have eP: "set ?P = set (properties st)"
    using lens(4) by simp
  have "take 8 (sort_key (\<lambda>a. - a_date a) ?A) = sort_key (\<lambda>a. - a_date a) ?A"
    using lA by simp
  then have "set (activity_feed userId ?since 8 st) = set ?A"
    by (simp only: F set_sort)
  then have setR: "set (activity_feed userId ?since 8 st) =
      step_activity st ` set ?S \<union> document_activity st ` set ?D \<union>
      event_activity st ` set (events st) \<union> property_activity ` set (properties st)"
    by (simp only: set_append set_map eE eP Un_assoc)
  have subS: "set ?S \<subseteq> set (steps st)"
    using set_take_subset [of 2 "sort_key (\<lambda>s. - s_updatedAt s) (steps st)"] by simp
  have subD: "set ?D \<subseteq> set (documents st)"
    using set_take_subset [of 2 "sort_key (\<lambda>d. - d_createdAt d) (documents st)"] by simp
  have topS: "\<forall>s\<in>set ?S. \<forall>t\<in>set (steps st). t \<notin> set ?S \<longrightarrow> s_updatedAt t < s_updatedAt s"
    using take_sort_key_most_recent [OF dS] by blast
  have topD: "\<forall>d\<in>set ?D. \<forall>t\<in>set (documents st). t \<notin> set ?D \<longrightarrow> d_createdAt t < d_createdAt d"
    using take_sort_key_most_recent [OF dD] by blast
  show ?thesis
    unfolding rS rD rE rP
    using R lR sR setR lS subS topS lD subD topD eE eP
    by (simp only: rS rD rE rP simp_thms)
qed


theorem recent_activity_limit_8_witness:
  "length (steps example_store) = 4 \<and> length (documents example_store) = 4 \<and>
   length (events example_store) = 2 \<and> length (properties example_store) = 1 \<and>
   valid_date (window_start (day 12) (Some 30)) \<and>
   window_start (day 12) (Some 30) \<le> day 1 \<and>
   distinct (map s_updatedAt (steps example_store) @ map d_createdAt (documents example_store) @
     map e_createdAt (events example_store) @ map p_createdAt (properties example_store)) \<and>
   recent_activity 1 (day 12) (Some 8) (Some 30) example_store =
     Inr (activity_feed 1 (window_start (day 12) (Some 30)) 8 example_store) \<and>
   length (activity_feed 1 (window_start (day 12) (Some 30)) 8 example_store) = 7 \<and>
   sorted_wrt (>)
     (map a_date (activity_feed 1 (window_start (day 12) (Some 30)) 8 example_store)) \<and>
   length (recentSteps 1 (window_start (day 12) (Some 30)) 8 example_store) = 2 \<and>
   length (recentDocuments 1 (window_start (day 12) (Some 30)) 8 example_store) = 2"
proof -
  have l1: "length (steps example_store) = 4" and l2: "length (documents example_store) = 4"
    and l3: "length (events example_store) = 2" and l4: "length (properties example_store) = 1"
    by (simp_all add: example_store_def)
  have va: "valid_date (window_start (day 12) (Some 30))"
    by (simp add: valid_date_def window_start_def js_or_default_def day_def)
  have vP: "\<forall>p\<in>set (properties example_store).
      propertyFilter 1 p \<and> window_start (day 12) (Some 30) \<le> p_createdAt p"
    by (simp add: window_start_def js_or_default_def example_store_def example_property_def
        propertyFilter_def day_def)
  have vS: "\<forall>s\<in>set (steps example_store).
      s_property s \<in> set (map p_id (properties example_store)) \<and> s_isActive s \<and>
      window_start (day 12) (Some 30) \<le> s_updatedAt s"
    by (simp add: window_start_def js_or_default_def example_store_def example_property_def
        example_step_def day_def)
  have vD: "\<forall>d\<in>set (documents example_store).
      d_property d \<in> set (map p_id (properties example_store)) \<and> d_isActive d \<and>
      window_start (day 12) (Some 30) \<le> d_createdAt d"
    by (simp add: window_start_def js_or_default_def example_store_def example_property_def
        example_document_def day_def)
  have vE: "\<forall>e\<in>set (events example_store).
      calendarFilter 1 e \<and> window_start (day 12) (Some 30) \<le> e_createdAt e"
    by (simp add: window_start_def js_or_default_def example_store_def example_event_def
        calendarFilter_def day_def)
  have d: "distinct (map s_updatedAt (steps example_store) @
      map d_createdAt (documents example_store) @ map e_createdAt (events example_store) @
      map p_createdAt (properties example_store))"
    by (simp add: example_store_def example_property_def example_step_def
        example_document_def example_event_def day_def)
  have w1: "window_start (day 12) (Some 30) \<le> day 1"
    by (simp add: window_start_def js_or_default_def day_def)
  show ?thesis
    using l1 l2 l3 l4 va w1 d recent_activity_limit_8 [OF l1 l2 l3 l4 va vP vS vD vE d]
    by (simp only: simp_thms)
qed

subsection \<open>Single-record reads\<close>

lemma some_shared_never_matches:
  "some_shared us userId xs = (if set xs \<subseteq> set us then Some False else None)"
  by (induction xs) (simp_all add: toString_is_user_def)

lemma failures_distinct:
  "access_denied \<noteq> property_not_found" "access_denied \<noteq> document_not_found"
  "access_denied \<noteq> event_not_found" "access_denied \<noteq> step_not_found"
  "internal_error \<noteq> property_not_found" "internal_error \<noteq> document_not_found"
  "internal_error \<noteq> event_not_found" "internal_error \<noteq> step_not_found"
  by (simp_all add: access_denied_def internal_error_def property_not_found_def
      document_not_found_def event_not_found_def step_not_found_def)

lemma malformed_id:
  "get_property userId None st = Inl internal_error"
  "get_document userId None st = Inl internal_error"
  "get_event userId None st = Inl internal_error"
  "get_step userId None st = Inl internal_error"
  by (simp_all add: get_property_def get_document_def get_event_def get_step_def)

lemma get_property_out_of_scope:
  assumes "\<forall>p\<in>set (properties st). p_id p = i \<longrightarrow>
      p_owner p \<noteq> userId \<and> userId \<notin> set (p_sharedWith p)"
  shows "get_property userId (Some i) st = Inl property_not_found"
proof -
  have "find (\<lambda>p. p_id p = i \<and> (p_owner p = userId \<or> userId \<in> set (p_sharedWith p)))
      (properties st) = None"
    using assms by (simp only: find_None_iff) blast
  then show ?thesis
    by (simp add: get_property_def)
qed

lemma get_document_resolved:
  assumes "find (\<lambda>d. d_id d = i) (documents st) = Some d"
  shows "get_document userId (Some i) st =
     (if populate_property st (d_property d) \<noteq> None \<and> set (d_sharedWith d) \<subseteq> set (users st)
      then Inl access_denied else Inl internal_error)"
  using assms
  by (auto simp add: get_document_def some_shared_never_matches toString_is_user_def
      split: option.splits)

lemma get_event_resolved:
  assumes "find (\<lambda>e. e_id e = i) (events st) = Some e"
  shows "get_event userId (Some i) st =
     (if e_owner e \<in> set (users st) \<and> set (e_sharedWith e) \<subseteq> set (users st)
      then Inl access_denied else Inl internal_error)"
  using assms
  by (auto simp add: get_event_def some_shared_never_matches toString_is_user_def
      split: option.splits)

lemma get_step_out_of_scope:
  assumes "find (\<lambda>s. s_id s = i) (steps st) = Some s"
    and "\<forall>q\<in>set (properties st). p_id q = s_property s \<longrightarrow>
      p_owner q \<noteq> userId \<and> userId \<notin> set (p_sharedWith q)"
  shows "get_step userId (Some i) st =
     (if populate_property st (s_property s) \<noteq> None then Inl access_denied
      else Inl internal_error)"
proof (cases "populate_property st (s_property s)")
  case None
  with assms(1) show ?thesis
    by (simp add: get_step_def)
next
  case (Some p)
  then have "p_id p = s_property s"
    by (auto simp add: populate_property_def find_Some_iff)
  with assms(2) have "find (\<lambda>q. p_id q = p_id p \<and> userId \<in> set (p_sharedWith q))
      (properties st) = None"
    by (simp only: find_None_iff) blast
  with Some assms(1) show ?thesis
    by (simp add: get_step_def toString_is_user_def)
qed

text \<open>
  C8, as the claim states it, fails: to user 3 the read of document 99, which does not
  exist, answers NotFound, and the read of document 20, which exists outside the scope of
  user 3, answers Forbidden; the two answers differ.
\<close>

theorem get_document_forbidden_not_hidden:
  "get_document 3 (Some 99) example_store = Inl document_not_found \<and>
   get_document 3 (Some 20) example_store = Inl access_denied \<and>
   get_document 3 (Some 20) example_store \<noteq> get_document 3 (Some 99) example_store"
  by (simp add: get_document_def populate_property_def example_store_def example_document_def
      example_property_def access_denied_def document_not_found_def toString_is_user_def)

text \<open>
  C8, amended. The single-property read answers the same NotFound failure for a
  well-formed id that does not resolve and for an id whose property is outside the
  caller's visibility scope. The single-document, single-event and single-step reads
  answer NotFound for a well-formed id that does not resolve, and for an id that
  resolves to a record outside the caller's scope a different failure: Forbidden (403)
  when the references that the route reads resolve (the property of the document or
  step, the users of the share list, the owner of the event), the internal error (500)
  otherwise. An id that is not well formed gets the internal error from all four reads.
\<close>

theorem single_reads_not_found_or_forbidden:
  "get_property userId None st = Inl internal_error \<and>
   get_document userId None st = Inl internal_error \<and>
   get_event userId None st = Inl internal_error \<and>
   get_step userId None st = Inl internal_error \<and>
   ((\<forall>p\<in>set (properties st). p_id p = i \<longrightarrow>
        p_owner p \<noteq> userId \<and> userId \<notin> set (p_sharedWith p)) \<longrightarrow>
      get_property userId (Some i) st = Inl property_not_found) \<and>
   (find (\<lambda>d. d_id d = i) (documents st) = None \<longrightarrow>
      get_document userId (Some i) st = Inl document_not_found) \<and>
   (\<forall>d. find (\<lambda>d. d_id d = i) (documents st) = Some d \<and>
        (\<forall>p. populate_property st (d_property d) = Some p \<longrightarrow> p_owner p \<noteq> userId) \<and>
        userId \<notin> set (d_sharedWith d) \<longrightarrow>
      get_document userId (Some i) st =
        (if populate_property st (d_property d) \<noteq> None \<and>
            set (d_sharedWith d) \<subseteq> set (users st)
         then Inl access_denied else Inl internal_error)) \<and>
   (find (\<lambda>e. e_id e = i) (events st) = None \<longrightarrow>
      get_event userId (Some i) st = Inl event_not_found) \<and>
   (\<forall>e. find (\<lambda>e. e_id e = i) (events st) = Some e \<and> e_owner e \<noteq> userId \<and>
        userId \<notin> set (e_sharedWith e) \<longrightarrow>
      get_event userId (Some i) st =
        (if e_owner e \<in> set (users st) \<and> set (e_sharedWith e) \<subseteq> set (users st)
         then Inl access_denied else Inl internal_error)) \<and>
   (find (\<lambda>s. s_id s = i) (steps st) = None \<longrightarrow>
      get_step userId (Some i) st = Inl step_not_found) \<and>
   (\<forall>s. find (\<lambda>s. s_id s = i) (steps st) = Some s \<and>
        (\<forall>q\<in>set (properties st). p_id q = s_property s \<longrightarrow>
           p_owner q \<noteq> userId \<and> userId \<notin> set (p_sharedWith q)) \<longrightarrow>
      get_step userId (Some i) st =
        (if populate_property st (s_property s) \<noteq> None then Inl access_denied
         else Inl internal_error)) \<and>
   access_denied \<noteq> document_not_found \<and> access_denied \<noteq> event_not_found \<and>
   access_denied \<noteq> step_not_found \<and> internal_error \<noteq> property_not_found \<and>
   internal_error \<noteq> document_not_found \<and> internal_error \<noteq> event_not_found \<and>
   internal_error \<noteq> step_not_found"
proof -
  have d0: "find (\<lambda>d. d_id d = i) (documents st) = None \<longrightarrow>
      get_document userId (Some i) st = Inl document_not_found"
    by (simp add: get_document_def)
  have e0: "find (\<lambda>e. e_id e = i) (events st) = None \<longrightarrow>
      get_event userId (Some i) st = Inl event_not_found"
    by (simp add: get_event_def)
  have s0: "find (\<lambda>s. s_id s = i) (steps st) = None \<longrightarrow>
      get_step userId (Some i) st = Inl step_not_found"
    by (simp add: get_step_def)
  have d1: "\<forall>d. find (\<lambda>d. d_id d = i) (documents st) = Some d \<and>
        (\<forall>p. populate_property st (d_property d) = Some p \<longrightarrow> p_owner p \<noteq> userId) \<and>
        userId \<notin> set (d_sharedWith d) \<longrightarrow>
      get_document userId (Some i) st =
        (if populate_property st (d_property d) \<noteq> None \<and>
            set (d_sharedWith d) \<subseteq> set (users st)
         then Inl access_denied else Inl internal_error)"
    using get_document_resolved by blast
  have e1: "\<forall>e. find (\<lambda>e. e_id e = i) (events st) = Some e \<and> e_owner e \<noteq> userId \<and>
        userId \<notin> set (e_sharedWith e) \<longrightarrow>
      get_event userId (Some i) st =
        (if e_owner e \<in> set (users st) \<and> set (e_sharedWith e) \<subseteq> set (users st)
         then Inl access_denied else Inl internal_error)"
    using get_event_resolved by blast
  have s1: "\<forall>s. find (\<lambda>s. s_id s = i) (steps st) = Some s \<and>
        (\<forall>q\<in>set (properties st). p_id q = s_property s \<longrightarrow>
           p_owner q \<noteq> userId \<and> userId \<notin> set (p_sharedWith q)) \<longrightarrow>
      get_step userId (Some i) st =
        (if populate_property st (s_property s) \<noteq> None then Inl access_denied
         else Inl internal_error)"
    using get_step_out_of_scope by blast
  have p1: "(\<forall>p\<in>set (properties st). p_id p = i \<longrightarrow>
        p_owner p \<noteq> userId \<and> userId \<notin> set (p_sharedWith p)) \<longrightarrow>
      get_property userId (Some i) st = Inl property_not_found"
    using get_property_out_of_scope by blast
  show ?thesis
    using d0 e0 s0 d1 e1 s1 p1 malformed_id failures_distinct
    by (simp only: simp_thms)
qed

theorem single_reads_not_found_or_forbidden_witness:
  "populate_property example_store 10 = Some (example_property (day 1)) \<and>
   \<not> propertyFilter 3 (example_property (day 1)) \<and>
   get_property 3 (Some 10) example_store = Inl property_not_found \<and>
   get_property 3 (Some 99) example_store = Inl property_not_found \<and>
   get_document 3 (Some 99) example_store = Inl document_not_found \<and>
   get_document 3 (Some 20) example_store = Inl access_denied \<and>
   get_event 3 (Some 99) example_store = Inl event_not_found \<and>
   get_event 3 (Some 30) example_store = Inl access_denied \<and>
   get_step 3 (Some 99) example_store = Inl step_not_found \<and>
   get_step 3 (Some 40) example_store = Inl access_denied \<and>
   get_step 3 (Some 40) (example_store\<lparr>properties := []\<rparr>) = Inl internal_error"
proof -
  note ex = example_store_def example_property_def example_document_def example_event_def
    example_step_def populate_property_def
  have p: "populate_property example_store 10 = Some (example_property (day 1))"
    by (simp add: ex)
  have v: "\<not> propertyFilter 3 (example_property (day 1))"
    by (simp add: propertyFilter_def example_property_def)
  have p10: "get_property 3 (Some 10) example_store = Inl property_not_found"
    using single_reads_not_found_or_forbidden [of 3 example_store 10] by (simp add: ex)
  have m99: "get_property 3 (Some 99) example_store = Inl property_not_found \<and>
      get_document 3 (Some 99) example_store = Inl document_not_found \<and>
      get_event 3 (Some 99) example_store = Inl event_not_found \<and>
      get_step 3 (Some 99) example_store = Inl step_not_found"
    using single_reads_not_found_or_forbidden [of 3 example_store 99] by (simp add: ex)
  have d20: "get_document 3 (Some 20) example_store = Inl access_denied"
    using single_reads_not_found_or_forbidden [of 3 example_store 20] by (simp add: ex)
  have e30: "get_event 3 (Some 30) example_store = Inl access_denied"
    using single_reads_not_found_or_forbidden [of 3 example_store 30] by (simp add: ex)
  have s40: "get_step 3 (Some 40) example_store = Inl access_denied"
    using single_reads_not_found_or_forbidden [of 3 example_store 40] by (simp add: ex)
  have s40': "get_step 3 (Some 40) (example_store\<lparr>properties := []\<rparr>) = Inl internal_error"
    using single_reads_not_found_or_forbidden [of 3 "example_store\<lparr>properties := []\<rparr>" 40]
    by (simp add: ex)
  from p v p10 m99 d20 e30 s40 s40' show ?thesis
    by simp
qed

end
